theory Spec2Isabelle
  imports Main "HOL-Library.Word"
begin

section \<open>Values and errors\<close>

text \<open>
  The configuration is whatever \<^verbatim>\<open>json.load\<close> returns, and a message's content is
  whatever the configuration, the user or the provider supplied: Python does not type
  them. A value is therefore a JSON value. An integer is unbounded; a float is carried as
  the 64 bits of its IEEE-754 pattern (the code stores and forwards floats and tests them
  for zero, nothing else); a dict is an association list in insertion order (its keys are
  distinct in Python), looked up with \<open>map_of\<close>. A string is a list of bytes, the
  UTF-8 form of Python's string, which has one byte for each code point on ASCII text.
\<close>

type_synonym pyfloat = "64 word"

datatype json =
    JNull
  | JBool bool
  | JInt int
  | JFloat pyfloat
  | JStr string
  | JList "json list"
  | JDict "(string \<times> json) list"

datatype exn_class =
    Exception | ValueError | TypeError | AttributeError | IndexError | ImportError

text \<open>A raised exception: its class and \<^verbatim>\<open>str(e)\<close>.\<close>

datatype py_error = Raise exn_class string

fun str_of_error :: "py_error \<Rightarrow> string" where
  "str_of_error (Raise c m) = m"

text \<open>Python truthiness, as \<^verbatim>\<open>if x:\<close> and \<^verbatim>\<open>not x\<close> test it.\<close>

fun truthy :: "json \<Rightarrow> bool" where
  "truthy JNull = False"
| "truthy (JBool b) = b"
| "truthy (JInt n) = (n \<noteq> 0)"
| "truthy (JFloat w) = (w \<noteq> 0 \<and> w \<noteq> 0x8000000000000000)"
| "truthy (JStr s) = (s \<noteq> [])"
| "truthy (JList xs) = (xs \<noteq> [])"
| "truthy (JDict kvs) = (kvs \<noteq> [])"

subsection \<open>String built-ins\<close>

text \<open>\<^verbatim>\<open>s.split(c)\<close>: one more piece than there are separators; \<open>acc\<close> is the
  current piece, reversed.\<close>

fun split_acc :: "char \<Rightarrow> string \<Rightarrow> string \<Rightarrow> string list" where
  "split_acc c acc [] = [rev acc]"
| "split_acc c acc (x # xs) =
     (if x = c then rev acc # split_acc c [] xs else split_acc c (x # acc) xs)"

definition py_split :: "string \<Rightarrow> char \<Rightarrow> string list" where
  "py_split s c = split_acc c [] s"

text \<open>
  \<^verbatim>\<open>str.lower\<close> on the letters of ASCII. The factory looks the registry up with
  the result; the names of the registry are ASCII, and no character outside ASCII is lowered
  to a letter of one of them, so the lookup agrees with Python's for every name.
  \<^verbatim>\<open>str.upper\<close> changes letters outside ASCII as well, and its result names the
  environment variable that is read: it is not reproduced here but taken as a parameter where
  the code calls it.
\<close>

definition lower_char :: "char \<Rightarrow> char" where
  "lower_char c =
     (case map_of (zip ''ABCDEFGHIJKLMNOPQRSTUVWXYZ'' ''abcdefghijklmnopqrstuvwxyz'') c of
        Some l \<Rightarrow> l | None \<Rightarrow> c)"

definition py_lower :: "string \<Rightarrow> string" where
  "py_lower s = map lower_char s"

text \<open>\<^verbatim>\<open>sep.join(xs)\<close>.\<close>

fun py_join :: "string \<Rightarrow> string list \<Rightarrow> string" where
  "py_join sep [] = []"
| "py_join sep [x] = x"
| "py_join sep (x # y # ys) = x @ sep @ py_join sep (y # ys)"

section \<open>config_manager.py\<close>

text \<open>
  \<^verbatim>\<open>Config.get\<close>: the loop over the segments of the dotted key. \<open>value\<close> starts as
  the whole configuration; a segment that the current value does not hold, or a current
  value that is not a dict, returns the default at once.
\<close>

fun get_loop :: "json \<Rightarrow> string list \<Rightarrow> json \<Rightarrow> json" where
  "get_loop val [] dflt = val"
| "get_loop val (k # keys) dflt =
     (case val of
        JDict d \<Rightarrow>
          (case map_of d k of
             Some v \<Rightarrow> get_loop v keys dflt
           | None \<Rightarrow> dflt)
      | _ \<Rightarrow> dflt)"

definition Config_get :: "json \<Rightarrow> string \<Rightarrow> json \<Rightarrow> json" where
  "Config_get config key dflt = get_loop config (py_split key (CHR ''.'')) dflt"

text \<open>
  What the specification calls traversal, segment by segment: the value a path leads to,
  or nothing when a segment is absent or the value reached is not a mapping.
\<close>

fun traverse :: "json \<Rightarrow> string list \<Rightarrow> json option" where
  "traverse v [] = Some v"
| "traverse (JDict d) (k # ks) =
     (case map_of d k of None \<Rightarrow> None | Some v' \<Rightarrow> traverse v' ks)"
| "traverse v (k # ks) = None"

text \<open>The properties of \<^verbatim>\<open>Config\<close> that read one key with a default.\<close>

definition Config_bot_name :: "json \<Rightarrow> json" where
  "Config_bot_name config = Config_get config ''bot_name'' (JStr ''Assistant'')"

definition Config_bot_instructions :: "json \<Rightarrow> json" where
  "Config_bot_instructions config =
     Config_get config ''bot_instructions'' (JStr ''You are a helpful assistant.'')"

definition Config_api_provider :: "json \<Rightarrow> json" where
  "Config_api_provider config = Config_get config ''api_provider'' (JStr ''openai'')"

definition Config_model :: "json \<Rightarrow> json" where
  "Config_model config = Config_get config ''model'' (JStr ''gpt-3.5-turbo'')"

text \<open>\<^verbatim>\<open>type(x).__name__\<close>, for the message of an AttributeError or TypeError.\<close>

fun type_name :: "json \<Rightarrow> string" where
  "type_name JNull = ''NoneType''"
| "type_name (JBool b) = ''bool''"
| "type_name (JInt n) = ''int''"
| "type_name (JFloat w) = ''float''"
| "type_name (JStr s) = ''str''"
| "type_name (JList xs) = ''list''"
| "type_name (JDict kvs) = ''dict''"

definition no_attribute :: "json \<Rightarrow> string \<Rightarrow> py_error" where
  "no_attribute v attr =
     Raise AttributeError
       ([CHR 0x27] @ type_name v @ [CHR 0x27] @ '' object has no attribute '' @
        [CHR 0x27] @ attr @ [CHR 0x27])"

text \<open>
  The process environment, and \<^verbatim>\<open>os.getenv(name, default)\<close>.
\<close>

type_synonym environ = "string \<rightharpoonup> string"

definition getenv :: "environ \<Rightarrow> string \<Rightarrow> string \<Rightarrow> string" where
  "getenv env name dflt = (case env name of Some v \<Rightarrow> v | None \<Rightarrow> dflt)"

text \<open>
  The loop of \<^verbatim>\<open>Config.api_key\<close> over the candidate variable names: each one is read
  into \<open>key\<close>, and the loop breaks at the first value that is not empty. After the last
  name \<open>key\<close> holds what was read last. In \<open>Config_api_key\<close> the parameter
  \<open>str_upper\<close> is \<^verbatim>\<open>str.upper\<close>.
\<close>

fun probe_env :: "environ \<Rightarrow> string list \<Rightarrow> json \<Rightarrow> json" where
  "probe_env env [] key = key"
| "probe_env env (env_name # rest) key =
     (let key' = JStr (getenv env env_name [])
      in if truthy key' then key' else probe_env env rest key')"

definition Config_api_key ::
  "(string \<Rightarrow> string) \<Rightarrow> json \<Rightarrow> environ \<Rightarrow> py_error + json" where
  "Config_api_key str_upper config env =
     (let key = Config_get config ''api_key'' (JStr [])
      in if \<not> truthy key then
           (case Config_api_provider config of
              JStr p \<Rightarrow>
                (let provider = str_upper p;
                     env_names = [provider @ ''_API_KEY'', provider @ ''API_KEY'', ''API_KEY'']
                 in Inr (probe_env env env_names key))
            | other \<Rightarrow> Inl (no_attribute other ''upper''))
         else Inr key)"

text \<open>
  What the specification says of the environment fallback: the first value that is not
  empty among the candidates, in order, else the empty string.
\<close>

fun first_non_empty :: "string list \<Rightarrow> string" where
  "first_non_empty [] = []"
| "first_non_empty (v # vs) = (if v \<noteq> [] then v else first_non_empty vs)"

section \<open>ai_providers.py\<close>

text \<open>A message is a dict with the keys \<^verbatim>\<open>role\<close> and \<^verbatim>\<open>content\<close>.\<close>

record message =
  role :: string
  content :: json

text \<open>
  What \<^verbatim>\<open>AIProvider.__init__\<close> binds and every request carries: the model, the
  temperature and the token budget. A provider instance adds the credential; the request
  of each vendor adds that vendor's fields, named as the keyword arguments of its call.
\<close>

record params =
  model :: json
  temperature :: pyfloat
  max_tokens :: int

record AIProvider = params +
  api_key :: json

record completions_request = params +
  messages :: "message list"

record anthropic_request = completions_request +
  system :: json

record cohere_request = params +
  message :: json
  chat_history :: "json list"

text \<open>
  The vendor's SDK call is outside the program: a function from the request to an error
  or to the part of the response that \<^verbatim>\<open>chat\<close> reads (the contents of
  \<^verbatim>\<open>response.choices\<close>, the texts of \<^verbatim>\<open>response.content\<close>, or
  \<^verbatim>\<open>response.text\<close>).
\<close>

definition api_error :: "string \<Rightarrow> py_error \<Rightarrow> py_error" where
  "api_error vendor e = Raise Exception (vendor @ '' API error: '' @ str_of_error e)"

definition first_item :: "json list \<Rightarrow> py_error + json" where
  "first_item xs =
     (case xs of [] \<Rightarrow> Inl (Raise IndexError ''list index out of range'') | x # _ \<Rightarrow> Inr x)"



text \<open>The loop of \<^verbatim>\<open>AnthropicProvider.chat\<close>, on \<open>(system_message, user_messages)\<close>.\<close>

fun anthropic_loop :: "message list \<Rightarrow> json \<Rightarrow> message list \<Rightarrow> json \<times> message list" where
  "anthropic_loop [] system_message user_messages = (system_message, user_messages)"
| "anthropic_loop (msg # rest) system_message user_messages =
     (if role msg = ''system'' then anthropic_loop rest (content msg) user_messages
      else anthropic_loop rest system_message (user_messages @ [msg]))"

definition AnthropicProvider_request :: "'a AIProvider_scheme \<Rightarrow> message list \<Rightarrow> anthropic_request" where
  "AnthropicProvider_request self msgs =
     (case anthropic_loop msgs (JStr []) [] of
        (system_message, user_messages) \<Rightarrow>
          \<lparr>model = model self, temperature = temperature self, max_tokens = max_tokens self,
           messages = user_messages, system = system_message\<rparr>)"

definition AnthropicProvider_chat ::
  "(anthropic_request \<Rightarrow> py_error + json list) \<Rightarrow> 'a AIProvider_scheme \<Rightarrow> message list
     \<Rightarrow> py_error + json" where
  "AnthropicProvider_chat client self msgs =
     (case client (AnthropicProvider_request self msgs) of
        Inl e \<Rightarrow> Inl (api_error ''Anthropic'' e)
      | Inr blocks \<Rightarrow>
          (case first_item blocks of
             Inl e \<Rightarrow> Inl (api_error ''Anthropic'' e)
           | Inr text \<Rightarrow> Inr text))"

text \<open>The loop of \<^verbatim>\<open>CohereProvider.chat\<close>, on \<open>(chat_history, message_text)\<close>. A
  message whose role is none of the three falls through every branch.\<close>

definition chatbot_entry :: "json \<Rightarrow> json" where
  "chatbot_entry c = JDict [(''role'', JStr ''CHATBOT''), (''message'', c)]"

fun cohere_loop :: "message list \<Rightarrow> json list \<Rightarrow> json \<Rightarrow> json list \<times> json" where
  "cohere_loop [] history message_text = (history, message_text)"
| "cohere_loop (msg # rest) history message_text =
     (if role msg = ''system'' then cohere_loop rest history message_text
      else if role msg = ''user'' then cohere_loop rest history (content msg)
      else if role msg = ''assistant'' then
        cohere_loop rest (history @ [chatbot_entry (content msg)]) message_text
      else cohere_loop rest history message_text)"

definition CohereProvider_request :: "'a AIProvider_scheme \<Rightarrow> message list \<Rightarrow> cohere_request" where
  "CohereProvider_request self msgs =
     (case cohere_loop msgs [] (JStr []) of
        (history, message_text) \<Rightarrow>
          \<lparr>model = model self, temperature = temperature self, max_tokens = max_tokens self,
           message = message_text, chat_history = history\<rparr>)"

definition CohereProvider_chat ::
  "(cohere_request \<Rightarrow> py_error + json) \<Rightarrow> 'a AIProvider_scheme \<Rightarrow> message list
     \<Rightarrow> py_error + json" where
  "CohereProvider_chat client self msgs =
     (case client (CohereProvider_request self msgs) of
        Inl e \<Rightarrow> Inl (api_error ''Cohere'' e)
      | Inr text \<Rightarrow> Inr text)"



subsection \<open>ProviderFactory\<close>

datatype provider_class =
  OpenAIProvider | AnthropicProvider | CohereProvider | OllamaProvider | GroqProvider

definition PROVIDERS :: "(string \<times> provider_class) list" where
  "PROVIDERS =
     [(''openai'', OpenAIProvider),
      (''anthropic'', AnthropicProvider),
      (''cohere'', CohereProvider),
      (''ollama'', OllamaProvider),
      (''groq'', GroqProvider)]"

text \<open>
  \<^verbatim>\<open>ProviderFactory.create_provider\<close>. The constructors import the vendor's package,
  build its client and coerce the temperature and the token budget with \<^verbatim>\<open>float\<close> and
  \<^verbatim>\<open>int\<close>; \<open>construct\<close> stands for them, given the class that the registry selected.
\<close>

definition create_provider ::
  "(provider_class \<Rightarrow> json \<Rightarrow> py_error + 'p) \<Rightarrow> json \<Rightarrow> py_error + 'p" where
  "create_provider construct config =
     (case Config_api_provider config of
        JStr p \<Rightarrow>
          (let provider_name = py_lower p
           in case map_of PROVIDERS provider_name of
                None \<Rightarrow>
                  (let available = py_join '', '' (map fst PROVIDERS)
                   in Inl (Raise ValueError
                        (''Unknown provider '' @ [CHR 0x27] @ provider_name @ [CHR 0x27] @
                         ''. Available: '' @ available)))
              | Some provider_class \<Rightarrow> construct provider_class config)
      | other \<Rightarrow> Inl (no_attribute other ''lower''))"

definition get_available_providers :: "string list" where
  "get_available_providers = map fst PROVIDERS"

section \<open>chatbot.py\<close>

text \<open>
  What \<^verbatim>\<open>print\<close> writes is kept as a trace of lines, without the colour codes.
  The provider's \<^verbatim>\<open>chat\<close> is a network call: its outcome is a function of the
  requests sent before and of the request itself, and each call is recorded in \<open>sent\<close>.
\<close>

datatype printed =
    Thinking
  | ClearThinking
  | BotReply json json
  | TokenUsage nat
  | ErrorLine string
  | TryAgainLine
  | HistoryCleared

type_synonym provider_chat = "message list list \<Rightarrow> message list \<Rightarrow> py_error + json"

record ChatBot =
  config :: json
  conversation_history :: "message list"
  stdout :: "printed list"
  sent :: "message list list"

text \<open>\<^verbatim>\<open>ChatBot.__init__\<close>, after the provider is set up.\<close>

definition init_ChatBot :: "json \<Rightarrow> ChatBot" where
  "init_ChatBot cfg = \<lparr>config = cfg, conversation_history = [], stdout = [], sent = []\<rparr>"

definition clear_history :: "ChatBot \<Rightarrow> ChatBot" where
  "clear_history self =
     self\<lparr>conversation_history := [], stdout := stdout self @ [HistoryCleared]\<rparr>"

definition get_messages_for_api :: "ChatBot \<Rightarrow> message list" where
  "get_messages_for_api self =
     (let msgs = [];
          msgs = (if truthy (Config_bot_instructions (config self))
                  then msgs @ [\<lparr>role = ''system'',
                                content = Config_bot_instructions (config self)\<rparr>]
                  else msgs)
      in msgs @ conversation_history self)"

text \<open>\<^verbatim>\<open>len(x)\<close>, and the sum of the lengths of the contents, which stops at the
  first content that has no length.\<close>

fun py_len :: "json \<Rightarrow> py_error + nat" where
  "py_len (JStr s) = Inr (length s)"
| "py_len (JList xs) = Inr (length xs)"
| "py_len (JDict kvs) = Inr (length kvs)"
| "py_len v =
     Inl (Raise TypeError
       (''object of type '' @ [CHR 0x27] @ type_name v @ [CHR 0x27] @ '' has no len()''))"

fun total_chars :: "message list \<Rightarrow> nat \<Rightarrow> py_error + nat" where
  "total_chars [] acc = Inr acc"
| "total_chars (msg # rest) acc =
     (case py_len (content msg) of
        Inl e \<Rightarrow> Inl e
      | Inr n \<Rightarrow> total_chars rest (acc + n))"

text \<open>
  \<^verbatim>\<open>ChatBot.process_chat_message\<close>: the flag it returns (True to continue) and the
  chatbot after the turn. Every exception raised inside the \<^verbatim>\<open>try\<close> ends in the
  handler, which prints the error and returns True.
\<close>

definition handler :: "py_error \<Rightarrow> ChatBot \<Rightarrow> bool \<times> ChatBot" where
  "handler e self =
     (True, self\<lparr>stdout := stdout self @ [ErrorLine (str_of_error e), TryAgainLine]\<rparr>)"

definition process_chat_message :: "provider_chat \<Rightarrow> string \<Rightarrow> ChatBot \<Rightarrow> bool \<times> ChatBot" where
  "process_chat_message provider user_input self =
     (let s1 = self\<lparr>conversation_history :=
                   conversation_history self @ [\<lparr>role = ''user'', content = JStr user_input\<rparr>]\<rparr>;
          msgs = get_messages_for_api s1;
          s2 = s1\<lparr>stdout := stdout s1 @ [Thinking]\<rparr>;
          s3 = s2\<lparr>sent := sent s2 @ [msgs]\<rparr>
      in case provider (sent s2) msgs of
           Inl e \<Rightarrow> handler e s3
         | Inr response \<Rightarrow>
             (let s4 = s3\<lparr>stdout := stdout s3 @ [ClearThinking]\<rparr>;
                  s5 = s4\<lparr>conversation_history :=
                            conversation_history s4 @ [\<lparr>role = ''assistant'', content = response\<rparr>]\<rparr>;
                  s6 = s5\<lparr>stdout := stdout s5 @ [BotReply (Config_bot_name (config s5)) response]\<rparr>
              in if truthy (Config_get (config s6) ''settings.show_token_usage'' (JBool False))
                 then (case total_chars msgs 0 of
                         Inl e \<Rightarrow> handler e s6
                       | Inr n \<Rightarrow> (True, s6\<lparr>stdout := stdout s6 @ [TokenUsage (n div 4)]\<rparr>))
                 else (True, s6)))"

text \<open>
  The two operations of the command loop that change the history, and a session: the
  chatbot after a sequence of them, from its initial state. Each chat turn comes with
  the behaviour of the provider at that turn.
\<close>

datatype command = Chat provider_chat string | Clear

fun step :: "ChatBot \<Rightarrow> command \<Rightarrow> ChatBot" where
  "step self (Chat provider user_input) = snd (process_chat_message provider user_input self)"
| "step self Clear = clear_history self"

definition session :: "json \<Rightarrow> command list \<Rightarrow> ChatBot" where
  "session cfg cmds = foldl step (init_ChatBot cfg) cmds"

section \<open>telegram_bot.py\<close>

text \<open>
  \<^verbatim>\<open>user_conversations\<close> maps a user id to that user's history. The texts the bot
  tries to send are kept as a trace. An update comes with what the network does while it
  is handled: whether the typing indicator fails, what the provider answers, and
  whether sending the answer fails.
\<close>

datatype reply = Welcome | Cleared | Answer json | ErrorReply

record telegram =
  user_conversations :: "int \<rightharpoonup> message list"
  outbox :: "reply list"

record network =
  send_action :: "py_error option"
  chat :: "message list \<Rightarrow> py_error + json"
  reply_text :: "py_error option"

definition init_telegram :: telegram where
  "init_telegram = \<lparr>user_conversations = Map.empty, outbox = []\<rparr>"

definition start_command :: "int \<Rightarrow> telegram \<Rightarrow> telegram" where
  "start_command user_id st =
     (let convs = (if user_id \<notin> dom (user_conversations st)
                   then (user_conversations st)(user_id \<mapsto> [])
                   else user_conversations st)
      in st\<lparr>user_conversations := convs, outbox := outbox st @ [Welcome]\<rparr>)"

definition clear_command :: "int \<Rightarrow> telegram \<Rightarrow> telegram" where
  "clear_command user_id st =
     (let convs = (if user_id \<in> dom (user_conversations st)
                   then (user_conversations st)(user_id \<mapsto> [])
                   else user_conversations st)
      in st\<lparr>user_conversations := convs, outbox := outbox st @ [Cleared]\<rparr>)"

definition history_of :: "telegram \<Rightarrow> int \<Rightarrow> message list" where
  "history_of st user_id = (case user_conversations st user_id of None \<Rightarrow> [] | Some h \<Rightarrow> h)"

definition append_message :: "int \<Rightarrow> message \<Rightarrow> telegram \<Rightarrow> telegram" where
  "append_message user_id msg st =
     st\<lparr>user_conversations := (user_conversations st)(user_id \<mapsto> history_of st user_id @ [msg])\<rparr>"

definition handle_message :: "json \<Rightarrow> network \<Rightarrow> int \<Rightarrow> string \<Rightarrow> telegram \<Rightarrow> telegram" where
  "handle_message cfg net user_id user_message st =
     (let s0 = (if user_id \<notin> dom (user_conversations st)
                then st\<lparr>user_conversations := (user_conversations st)(user_id \<mapsto> [])\<rparr>
                else st);
          failed = (\<lambda>s. s\<lparr>outbox := outbox s @ [ErrorReply]\<rparr>)
      in case send_action net of
           Some e \<Rightarrow> failed s0
         | None \<Rightarrow>
             (let s1 = append_message user_id \<lparr>role = ''user'', content = JStr user_message\<rparr> s0;
                  msgs = [];
                  msgs = (if truthy (Config_bot_instructions cfg)
                          then msgs @ [\<lparr>role = ''system'', content = Config_bot_instructions cfg\<rparr>]
                          else msgs);
                  msgs = msgs @ history_of s1 user_id
              in case chat net msgs of
                   Inl e \<Rightarrow> failed s1
                 | Inr response \<Rightarrow>
                     (let s2 = append_message user_id \<lparr>role = ''assistant'', content = response\<rparr> s1;
                          s3 = s2\<lparr>outbox := outbox s2 @ [Answer response]\<rparr>
                      in case reply_text net of
                           Some e \<Rightarrow> failed s3
                         | None \<Rightarrow> s3)))"

datatype update = Start int | ClearCmd int | Text network int string

fun dispatch :: "json \<Rightarrow> telegram \<Rightarrow> update \<Rightarrow> telegram" where
  "dispatch cfg st (Start user_id) = start_command user_id st"
| "dispatch cfg st (ClearCmd user_id) = clear_command user_id st"
| "dispatch cfg st (Text net user_id user_message) = handle_message cfg net user_id user_message st"

definition polling :: "json \<Rightarrow> update list \<Rightarrow> telegram" where
  "polling cfg updates = foldl (dispatch cfg) init_telegram updates"

text \<open>A history holds no message of the system role.\<close>

definition no_system :: "message list \<Rightarrow> bool" where
  "no_system h = (filter (\<lambda>m. role m = ''system'') h = [])"

section \<open>Notation for examples\<close>

text \<open>A message whose content is a text, and a provider instance to run the examples on.\<close>

abbreviation (input) Message :: "string \<Rightarrow> string \<Rightarrow> message" where
  "Message r c \<equiv> \<lparr>role = r, content = JStr c\<rparr>"

abbreviation (input) a_provider :: AIProvider where
  "a_provider \<equiv>
     \<lparr>model = JStr ''command'', temperature = 0x3FE6666666666666, max_tokens = 150,
      api_key = JStr ''k''\<rparr>"

text \<open>
  An upper-casing to run the examples with: the one of the ASCII letters, which is what
  \<^verbatim>\<open>str.upper\<close> does on ASCII text.
\<close>

definition ascii_upper :: "string \<Rightarrow> string" where
  "ascii_upper s =
     map (\<lambda>c. case map_of (zip ''abcdefghijklmnopqrstuvwxyz'' ''ABCDEFGHIJKLMNOPQRSTUVWXYZ'') c of
                Some u \<Rightarrow> u | None \<Rightarrow> c) s"

section \<open>Proofs\<close>

subsection \<open>The string built-ins\<close>

text \<open>
  \<open>py_split\<close> is the inverse of joining with the separator, and no piece holds the
  separator: this determines the pieces.
\<close>

lemma split_acc_not_Nil: "split_acc c acc s \<noteq> []"
  by (induction s arbitrary: acc) auto

lemma py_join_Cons: "ys \<noteq> [] \<Longrightarrow> py_join sep (x # ys) = x @ sep @ py_join sep ys"
  by (cases ys) auto

lemma split_acc_join: "py_join [c] (split_acc c acc s) = rev acc @ s"
proof (induction s arbitrary: acc)
  case Nil
  show ?case by simp
next
  case (Cons x xs)
  show ?case
  proof (cases "x = c")
    case True
    have "py_join [c] (rev acc # split_acc c [] xs) =
          rev acc @ [c] @ py_join [c] (split_acc c [] xs)"
      by (rule py_join_Cons) (rule split_acc_not_Nil)
    with True Cons.IH [of "[]"] show ?thesis by simp
  next
    case False
    with Cons.IH [of "x # acc"] show ?thesis by simp
  qed
qed

lemma split_acc_pieces:
  "c \<notin> set acc \<Longrightarrow> piece \<in> set (split_acc c acc s) \<Longrightarrow> c \<notin> set piece"
proof (induction s arbitrary: acc)
  case Nil
  then show ?case by simp
next
  case (Cons x xs)
  show ?case
  proof (cases "x = c")
    case True
    with Cons.prems have "piece = rev acc \<or> piece \<in> set (split_acc c [] xs)"
      by simp
    then show ?thesis
    proof
      assume "piece = rev acc"
      with Cons.prems show ?thesis by simp
    next
      assume "piece \<in> set (split_acc c [] xs)"
      with Cons.IH [of "[]"] show ?thesis by simp
    qed
  next
    case False
    with Cons.prems Cons.IH [of "x # acc"] show ?thesis by simp
  qed
qed

lemma split_acc_length: "length (split_acc c acc s) = Suc (length (filter (\<lambda>x. x = c) s))"
  by (induction s arbitrary: acc) auto

lemma py_split_join: "py_join [c] (py_split s c) = s"
  by (simp add: py_split_def split_acc_join)

lemma py_split_pieces: "piece \<in> set (py_split s c) \<Longrightarrow> c \<notin> set piece"
  unfolding py_split_def by (rule split_acc_pieces [of c "[]"]) auto

lemma py_split_length: "length (py_split s c) = Suc (length (filter (\<lambda>x. x = c) s))"
  by (simp add: py_split_def split_acc_length)

subsection \<open>Config.get\<close>

lemma get_loop_traverse:
  "get_loop v ks d = (case traverse v ks of None \<Rightarrow> d | Some leaf \<Rightarrow> leaf)"
  by (induction v ks rule: traverse.induct) (auto split: option.splits)

lemma get_loop_stops: "traverse v ks = None \<Longrightarrow> get_loop v (ks @ rest) d = d"
  by (induction v ks rule: traverse.induct) (auto split: option.splits)

text \<open>
  Claim C3. \<^verbatim>\<open>Config.get(key, default)\<close> walks the configuration along the
  segments of the dotted key: it returns the value the whole path leads to, and the default
  when the path leads nowhere. It returns the default as soon as a prefix of the path fails (a
  segment is absent, or the value reached is not a mapping), whatever segments follow. On
  \<^verbatim>\<open>{"settings": {"save_conversation": false}}\<close> the key
  \<^verbatim>\<open>settings.save_conversation\<close> with default true gives false; on
  \<^verbatim>\<open>{}\<close> it gives true.
\<close>

theorem Config_get_traverses:
  "Config_get cfg key d =
     (case traverse cfg (py_split key (CHR ''.'')) of None \<Rightarrow> d | Some leaf \<Rightarrow> leaf)
   \<and> (\<forall>ks rest. py_split key (CHR ''.'') = ks @ rest \<and> traverse cfg ks = None
         \<longrightarrow> Config_get cfg key d = d)
   \<and> Config_get (JDict [(''settings'', JDict [(''save_conversation'', JBool False)])])
        ''settings.save_conversation'' (JBool True) = JBool False
   \<and> Config_get (JDict []) ''settings.save_conversation'' (JBool True) = JBool True"
proof -
  have a: "Config_get cfg key d =
     (case traverse cfg (py_split key (CHR ''.'')) of None \<Rightarrow> d | Some leaf \<Rightarrow> leaf)"
    by (simp add: Config_get_def get_loop_traverse)
  have b: "\<forall>ks rest. py_split key (CHR ''.'') = ks @ rest \<and> traverse cfg ks = None
         \<longrightarrow> Config_get cfg key d = d"
    by (simp add: Config_get_def get_loop_stops)
  have c: "Config_get (JDict [(''settings'', JDict [(''save_conversation'', JBool False)])])
        ''settings.save_conversation'' (JBool True) = JBool False"
    by (simp add: Config_get_def py_split_def)
  have e: "Config_get (JDict []) ''settings.save_conversation'' (JBool True) = JBool True"
    by (simp add: Config_get_def py_split_def)
  from a b c e show ?thesis by blast
qed

text \<open>
  The key \<^verbatim>\<open>a.b.c\<close> on \<^verbatim>\<open>{"a": 5}\<close>: the prefix
  \<^verbatim>\<open>a.b\<close> already fails, since 5 is not a mapping.
\<close>

theorem Config_get_traverses_witness:
  "py_split ''a.b.c'' (CHR ''.'') = [''a'', ''b''] @ [''c'']
   \<and> traverse (JDict [(''a'', JInt 5)]) [''a'', ''b''] = None
   \<and> Config_get (JDict [(''a'', JInt 5)]) ''a.b.c'' (JStr ''d'') = JStr ''d''"
proof -
  have s: "py_split ''a.b.c'' (CHR ''.'') = [''a'', ''b''] @ [''c'']"
    by (simp add: py_split_def)
  have t: "traverse (JDict [(''a'', JInt 5)]) [''a'', ''b''] = None"
    by simp
  from Config_get_traverses [of "JDict [(''a'', JInt 5)]" "''a.b.c''" "JStr ''d''"] s t
  show ?thesis by blast
qed

subsection \<open>Config.api_key\<close>

lemma probe_env_empty_key:
  "probe_env env names (JStr []) =
     JStr (first_non_empty (map (\<lambda>n. getenv env n []) names))"
  by (induction names) (auto simp: Let_def)

lemma probe_env_Cons:
  "probe_env env (n # names) key =
     JStr (first_non_empty (map (\<lambda>n. getenv env n []) (n # names)))"
  by (simp add: Let_def probe_env_empty_key)

text \<open>
  Claim C4. \<^verbatim>\<open>Config.api_key\<close>: a key in the configuration that is not empty
  is returned as it is. Otherwise, with the provider name \<open>p\<close> a string as the
  configuration format requires, the result is the first value that is not empty among the
  environment variables \<^verbatim>\<open>{P}_API_KEY\<close>, \<^verbatim>\<open>{P}API_KEY\<close> and
  \<^verbatim>\<open>API_KEY\<close>, in this order, with \<^verbatim>\<open>P\<close> the name in upper
  case, and the empty string when all three are unset or empty. This holds whatever the
  upper-casing does to the name, so for names outside ASCII too. With an empty key, the
  provider \<^verbatim>\<open>groq\<close>, whose upper case is \<^verbatim>\<open>GROQ\<close>, and
  \<^verbatim>\<open>GROQ_API_KEY=xyz\<close> the result is \<^verbatim>\<open>xyz\<close>.
\<close>

theorem Config_api_key_resolves:
  "(truthy (Config_get cfg ''api_key'' (JStr [])) \<longrightarrow>
      Config_api_key str_upper cfg env = Inr (Config_get cfg ''api_key'' (JStr [])))
   \<and> (\<not> truthy (Config_get cfg ''api_key'' (JStr [])) \<and>
        Config_api_provider cfg = JStr p \<longrightarrow>
      Config_api_key str_upper cfg env =
        Inr (JStr (first_non_empty
          [getenv env (str_upper p @ ''_API_KEY'') [],
           getenv env (str_upper p @ ''API_KEY'') [],
           getenv env ''API_KEY'' [] ])))
   \<and> (str_upper ''groq'' = ''GROQ'' \<longrightarrow>
      Config_api_key str_upper
        (JDict [(''api_provider'', JStr ''groq''), (''api_key'', JStr [])])
        [''GROQ_API_KEY'' \<mapsto> ''xyz''] = Inr (JStr ''xyz''))"
proof -
  have a: "truthy (Config_get cfg ''api_key'' (JStr [])) \<longrightarrow>
      Config_api_key str_upper cfg env = Inr (Config_get cfg ''api_key'' (JStr []))"
    by (simp add: Config_api_key_def)
  have b: "\<not> truthy (Config_get c ''api_key'' (JStr [])) \<and>
        Config_api_provider c = JStr q \<longrightarrow>
      Config_api_key str_upper c ev =
        Inr (JStr (first_non_empty
          [getenv ev (str_upper q @ ''_API_KEY'') [],
           getenv ev (str_upper q @ ''API_KEY'') [],
           getenv ev ''API_KEY'' [] ]))" for c q ev
    by (simp add: Config_api_key_def probe_env_Cons Let_def
        del: probe_env.simps first_non_empty.simps)
  have c: "str_upper ''groq'' = ''GROQ'' \<longrightarrow>
      Config_api_key str_upper
        (JDict [(''api_provider'', JStr ''groq''), (''api_key'', JStr [])])
        [''GROQ_API_KEY'' \<mapsto> ''xyz''] = Inr (JStr ''xyz'')"
  proof
    let ?cfg = "JDict [(''api_provider'', JStr ''groq''), (''api_key'', JStr [])]"
    let ?env = "[''GROQ_API_KEY'' \<mapsto> ''xyz'']"
    assume up: "str_upper ''groq'' = ''GROQ''"
    have "\<not> truthy (Config_get ?cfg ''api_key'' (JStr []))"
      by (simp add: Config_get_def py_split_def)
    moreover have "Config_api_provider ?cfg = JStr ''groq''"
      by (simp add: Config_api_provider_def Config_get_def py_split_def)
    ultimately have "Config_api_key str_upper ?cfg ?env =
        Inr (JStr (first_non_empty
          [getenv ?env (str_upper ''groq'' @ ''_API_KEY'') [],
           getenv ?env (str_upper ''groq'' @ ''API_KEY'') [],
           getenv ?env ''API_KEY'' [] ]))"
      using b [of ?cfg "''groq''" ?env] by blast
    then show "Config_api_key str_upper ?cfg ?env = Inr (JStr ''xyz'')"
      by (simp add: up getenv_def)
  qed
  from a b [of cfg p env] c show ?thesis by blast
qed

text \<open>
  A key in the configuration wins over the environment; without one, and with only the last
  candidate set, that one is found; and the example of the provider \<^verbatim>\<open>groq\<close>,
  with the upper-casing of ASCII.
\<close>

theorem Config_api_key_resolves_witness:
  "truthy (Config_get (JDict [(''api_provider'', JStr ''groq''), (''api_key'', JStr ''k'')])
       ''api_key'' (JStr []))
   \<and> Config_api_key ascii_upper
         (JDict [(''api_provider'', JStr ''groq''), (''api_key'', JStr ''k'')])
         [''GROQ_API_KEY'' \<mapsto> ''xyz''] = Inr (JStr ''k'')
   \<and> \<not> truthy (Config_get (JDict [(''api_provider'', JStr ''groq'')]) ''api_key'' (JStr []))
   \<and> Config_api_provider (JDict [(''api_provider'', JStr ''groq'')]) = JStr ''groq''
   \<and> Config_api_key ascii_upper (JDict [(''api_provider'', JStr ''groq'')])
         [''API_KEY'' \<mapsto> ''z''] = Inr (JStr ''z'')
   \<and> ascii_upper ''groq'' = ''GROQ''
   \<and> Config_api_key ascii_upper
         (JDict [(''api_provider'', JStr ''groq''), (''api_key'', JStr [])])
         [''GROQ_API_KEY'' \<mapsto> ''xyz''] = Inr (JStr ''xyz'')"
proof -
  let ?with_key = "JDict [(''api_provider'', JStr ''groq''), (''api_key'', JStr ''k'')]"
  let ?without = "JDict [(''api_provider'', JStr ''groq'')]"
  let ?env = "[''API_KEY'' \<mapsto> ''z'']"
  have up: "ascii_upper ''groq'' = ''GROQ''"
    by (simp add: ascii_upper_def)
  have t: "truthy (Config_get ?with_key ''api_key'' (JStr []))"
    by (simp add: Config_get_def py_split_def)
  have n: "\<not> truthy (Config_get ?without ''api_key'' (JStr []))"
    by (simp add: Config_get_def py_split_def)
  have p: "Config_api_provider ?without = JStr ''groq''"
    by (simp add: Config_api_provider_def Config_get_def py_split_def)
  have v: "first_non_empty
          [getenv ?env (ascii_upper ''groq'' @ ''_API_KEY'') [],
           getenv ?env (ascii_upper ''groq'' @ ''API_KEY'') [],
           getenv ?env ''API_KEY'' [] ] = ''z''"
    by (simp add: getenv_def up)
  from Config_api_key_resolves
         [of ?with_key ascii_upper "[''GROQ_API_KEY'' \<mapsto> ''xyz'']"] t
  have first: "Config_api_key ascii_upper ?with_key [''GROQ_API_KEY'' \<mapsto> ''xyz''] =
               Inr (JStr ''k'')"
    by (simp add: Config_get_def py_split_def)
  from Config_api_key_resolves [of ?without ascii_upper ?env "''groq''"] n p v
  have second: "Config_api_key ascii_upper ?without ?env = Inr (JStr ''z'')"
    by simp
  from Config_api_key_resolves [of _ ascii_upper] up
  have third: "Config_api_key ascii_upper
         (JDict [(''api_provider'', JStr ''groq''), (''api_key'', JStr [])])
         [''GROQ_API_KEY'' \<mapsto> ''xyz''] = Inr (JStr ''xyz'')"
    by blast
  from t first n p second up third show ?thesis by blast
qed

subsection \<open>The request of each vendor\<close>

lemma cohere_loop_eq:
  "cohere_loop msgs h t =
     (h @ map (\<lambda>m. chatbot_entry (content m)) (filter (\<lambda>m. role m = ''assistant'') msgs),
      (case filter (\<lambda>m. role m = ''user'') msgs of
         [] \<Rightarrow> t | u # us \<Rightarrow> content (last (u # us))))"
  by (induction msgs arbitrary: h t) (auto split: list.splits)

lemma anthropic_loop_eq:
  "anthropic_loop msgs sm ums =
     ((case filter (\<lambda>m. role m = ''system'') msgs of
         [] \<Rightarrow> sm | s # ss \<Rightarrow> content (last (s # ss))),
      ums @ filter (\<lambda>m. role m \<noteq> ''system'') msgs)"
  by (induction msgs arbitrary: sm ums) (auto split: list.splits)

lemma filter_filter_roles:
  "r \<noteq> ''system'' \<Longrightarrow>
   filter (\<lambda>m. role m = r) (filter (\<lambda>m. role m \<noteq> ''system'') msgs) =
   filter (\<lambda>m. role m = r) msgs"
  by (induction msgs) auto

text \<open>
  What each \<^verbatim>\<open>chat\<close> sends: the client is called once, on the request built by
  the loop, and its answer or its failure is what \<^verbatim>\<open>chat\<close> returns or raises.
\<close>

lemma CohereProvider_request_eq:
  "CohereProvider_request self msgs =
     \<lparr>model = model self, temperature = temperature self, max_tokens = max_tokens self,
      message = (case filter (\<lambda>m. role m = ''user'') msgs of
                   [] \<Rightarrow> JStr [] | u # us \<Rightarrow> content (last (u # us))),
      chat_history = map (\<lambda>m. chatbot_entry (content m))
                       (filter (\<lambda>m. role m = ''assistant'') msgs)\<rparr>"
  by (simp add: CohereProvider_request_def cohere_loop_eq)

lemma CohereProvider_chat_sends:
  "CohereProvider_chat client self msgs =
     (case client
             \<lparr>model = model self, temperature = temperature self, max_tokens = max_tokens self,
              message = (case filter (\<lambda>m. role m = ''user'') msgs of
                           [] \<Rightarrow> JStr [] | u # us \<Rightarrow> content (last (u # us))),
              chat_history = map (\<lambda>m. chatbot_entry (content m))
                               (filter (\<lambda>m. role m = ''assistant'') msgs)\<rparr> of
             Inl e \<Rightarrow> Inl (Raise Exception (''Cohere API error: '' @ str_of_error e))
           | Inr text \<Rightarrow> Inr text)"
  unfolding CohereProvider_chat_def CohereProvider_request_eq
  by (simp add: api_error_def split: sum.splits)

lemma AnthropicProvider_request_eq:
  "AnthropicProvider_request self msgs =
     \<lparr>model = model self, temperature = temperature self, max_tokens = max_tokens self,
      messages = filter (\<lambda>m. role m \<noteq> ''system'') msgs,
      system = (case filter (\<lambda>m. role m = ''system'') msgs of
                  [] \<Rightarrow> JStr [] | s # ss \<Rightarrow> content (last (s # ss)))\<rparr>"
  by (simp add: AnthropicProvider_request_def anthropic_loop_eq)

lemma AnthropicProvider_chat_sends:
  "AnthropicProvider_chat client self msgs =
     (case client
           \<lparr>model = model self, temperature = temperature self, max_tokens = max_tokens self,
            messages = filter (\<lambda>m. role m \<noteq> ''system'') msgs,
            system = (case filter (\<lambda>m. role m = ''system'') msgs of
                        [] \<Rightarrow> JStr [] | s # ss \<Rightarrow> content (last (s # ss)))\<rparr> of
           Inl e \<Rightarrow> Inl (Raise Exception (''Anthropic API error: '' @ str_of_error e))
         | Inr blocks \<Rightarrow>
             (case blocks of
                [] \<Rightarrow> Inl (Raise Exception ''Anthropic API error: list index out of range'')
              | text # _ \<Rightarrow> Inr text))"
  unfolding AnthropicProvider_chat_def AnthropicProvider_request_eq
  by (simp add: api_error_def first_item_def split: sum.splits list.splits)

text \<open>
  Claim C1. \<^verbatim>\<open>CohereProvider.chat\<close> calls the client on the request it builds
  from the message list, and returns the client's text or raises its failure under the
  vendor's name. The request, for any message list: the current message is the content of the last message of the user role (the empty
  string when there is none), the chat history holds one \<^verbatim>\<open>CHATBOT\<close> entry for
  each assistant message, in order, and nothing else of the list enters the request: the
  system messages can be deleted without changing it, and so can every user message but the
  last. When the list ends with the user's message, as the callers build it, the history is
  made of the assistant messages before it. On
  \<^verbatim>\<open>[system S, user u1, assistant a1, user u2]\<close> the current message is
  \<^verbatim>\<open>u2\<close> and the history is the one entry for \<^verbatim>\<open>a1\<close>.
\<close>

theorem CohereProvider_request_shape:
  "CohereProvider_request self msgs =
     \<lparr>model = model self, temperature = temperature self, max_tokens = max_tokens self,
      message = (case filter (\<lambda>m. role m = ''user'') msgs of
                   [] \<Rightarrow> JStr [] | u # us \<Rightarrow> content (last (u # us))),
      chat_history = map (\<lambda>m. chatbot_entry (content m))
                       (filter (\<lambda>m. role m = ''assistant'') msgs)\<rparr>
   \<and> CohereProvider_request self (filter (\<lambda>m. role m \<noteq> ''system'') msgs) =
       CohereProvider_request self msgs
   \<and> (\<forall>prior u. msgs = prior @ [u] \<and> role u = ''user'' \<longrightarrow>
         message (CohereProvider_request self msgs) = content u \<and>
         chat_history (CohereProvider_request self msgs) =
           map (\<lambda>m. chatbot_entry (content m))
             (filter (\<lambda>m. role m = ''assistant'') prior))
   \<and> CohereProvider_request self
       [Message ''system'' ''S'', Message ''user'' ''u1'',
        Message ''assistant'' ''a1'', Message ''user'' ''u2''] =
     \<lparr>model = model self, temperature = temperature self, max_tokens = max_tokens self,
      message = JStr ''u2'',
      chat_history = [JDict [(''role'', JStr ''CHATBOT''), (''message'', JStr ''a1'')] ]\<rparr>
   \<and> (\<forall>client. CohereProvider_chat client self msgs =
        (case client
           \<lparr>model = model self, temperature = temperature self, max_tokens = max_tokens self,
            message = (case filter (\<lambda>m. role m = ''user'') msgs of
                         [] \<Rightarrow> JStr [] | u # us \<Rightarrow> content (last (u # us))),
            chat_history = map (\<lambda>m. chatbot_entry (content m))
                             (filter (\<lambda>m. role m = ''assistant'') msgs)\<rparr> of
           Inl e \<Rightarrow> Inl (Raise Exception (''Cohere API error: '' @ str_of_error e))
         | Inr text \<Rightarrow> Inr text))"
proof -
  have a: "CohereProvider_request self ms =
     \<lparr>model = model self, temperature = temperature self, max_tokens = max_tokens self,
      message = (case filter (\<lambda>m. role m = ''user'') ms of
                   [] \<Rightarrow> JStr [] | u # us \<Rightarrow> content (last (u # us))),
      chat_history = map (\<lambda>m. chatbot_entry (content m))
                       (filter (\<lambda>m. role m = ''assistant'') ms)\<rparr>" for ms
    by (simp add: CohereProvider_request_def cohere_loop_eq)
  have b: "CohereProvider_request self (filter (\<lambda>m. role m \<noteq> ''system'') msgs) =
       CohereProvider_request self msgs"
  proof -
    have u: "filter (\<lambda>m. role m = ''user'') (filter (\<lambda>m. role m \<noteq> ''system'') msgs) =
             filter (\<lambda>m. role m = ''user'') msgs"
      by (rule filter_filter_roles) simp
    have s: "filter (\<lambda>m. role m = ''assistant'')
               (filter (\<lambda>m. role m \<noteq> ''system'') msgs) =
             filter (\<lambda>m. role m = ''assistant'') msgs"
      by (rule filter_filter_roles) simp
    show ?thesis by (simp only: a u s)
  qed
  have c: "CohereProvider_request self
       [Message ''system'' ''S'', Message ''user'' ''u1'',
        Message ''assistant'' ''a1'', Message ''user'' ''u2''] =
     \<lparr>model = model self, temperature = temperature self, max_tokens = max_tokens self,
      message = JStr ''u2'',
      chat_history = [JDict [(''role'', JStr ''CHATBOT''), (''message'', JStr ''a1'')] ]\<rparr>"
    by (simp add: CohereProvider_request_def chatbot_entry_def)
  have d: "\<forall>prior u. msgs = prior @ [u] \<and> role u = ''user'' \<longrightarrow>
         message (CohereProvider_request self msgs) = content u \<and>
         chat_history (CohereProvider_request self msgs) =
           map (\<lambda>m. chatbot_entry (content m))
             (filter (\<lambda>m. role m = ''assistant'') prior)"
  proof (intro allI impI, elim conjE)
    fix prior u
    assume m: "msgs = prior @ [u]" and u: "role u = ''user''"
    then have f: "filter (\<lambda>m. role m = ''user'') msgs =
                  filter (\<lambda>m. role m = ''user'') prior @ [u]"
      by simp
    have "(case filter (\<lambda>m. role m = ''user'') msgs of
             [] \<Rightarrow> JStr [] | v # vs \<Rightarrow> content (last (v # vs))) = content u"
      unfolding f by (cases "filter (\<lambda>m. role m = ''user'') prior") simp_all
    moreover from m u
    have "filter (\<lambda>m. role m = ''assistant'') msgs =
          filter (\<lambda>m. role m = ''assistant'') prior"
      by simp
    ultimately show "message (CohereProvider_request self msgs) = content u \<and>
         chat_history (CohereProvider_request self msgs) =
           map (\<lambda>m. chatbot_entry (content m))
             (filter (\<lambda>m. role m = ''assistant'') prior)"
      by (simp add: a)
  qed
  have e: "\<forall>client. CohereProvider_chat client self msgs =
        (case client
           \<lparr>model = model self, temperature = temperature self, max_tokens = max_tokens self,
            message = (case filter (\<lambda>m. role m = ''user'') msgs of
                         [] \<Rightarrow> JStr [] | u # us \<Rightarrow> content (last (u # us))),
            chat_history = map (\<lambda>m. chatbot_entry (content m))
                             (filter (\<lambda>m. role m = ''assistant'') msgs)\<rparr> of
           Inl e \<Rightarrow> Inl (Raise Exception (''Cohere API error: '' @ str_of_error e))
         | Inr text \<Rightarrow> Inr text)"
    by (intro allI) (rule CohereProvider_chat_sends)
  from a [of msgs] b d c e show ?thesis by blast
qed

text \<open>
  A conversation without a system message, ending with the user's message; a client that
  answers with what it was sent, and one that is down.
\<close>

theorem CohereProvider_request_shape_witness:
  "[Message ''user'' ''u1'', Message ''assistant'' ''a1'', Message ''user'' ''u2''] =
     [Message ''user'' ''u1'', Message ''assistant'' ''a1''] @ [Message ''user'' ''u2'']
   \<and> role (Message ''user'' ''u2'') = ''user''
   \<and> message (CohereProvider_request a_provider
        [Message ''user'' ''u1'', Message ''assistant'' ''a1'', Message ''user'' ''u2''])
       = JStr ''u2''
   \<and> chat_history (CohereProvider_request a_provider
        [Message ''user'' ''u1'', Message ''assistant'' ''a1'', Message ''user'' ''u2''])
       = [JDict [(''role'', JStr ''CHATBOT''), (''message'', JStr ''a1'')] ]
   \<and> CohereProvider_chat (\<lambda>req. Inr (JList (message req # chat_history req))) a_provider
        [Message ''user'' ''u1'', Message ''assistant'' ''a1'', Message ''user'' ''u2'']
       = Inr (JList [JStr ''u2'', JDict [(''role'', JStr ''CHATBOT''), (''message'', JStr ''a1'')] ])
   \<and> CohereProvider_chat (\<lambda>req. Inl (Raise Exception ''down'')) a_provider
        [Message ''user'' ''u1'', Message ''assistant'' ''a1'', Message ''user'' ''u2'']
       = Inl (Raise Exception ''Cohere API error: down'')"
proof -
  let ?prior = "[Message ''user'' ''u1'', Message ''assistant'' ''a1'']"
  let ?u = "Message ''user'' ''u2''"
  let ?msgs = "[Message ''user'' ''u1'', Message ''assistant'' ''a1'', Message ''user'' ''u2'']"
  let ?req = "CohereProvider_request a_provider ?msgs"
  have h: "?msgs = ?prior @ [?u] \<and> role ?u = ''user''"
    by simp
  from CohereProvider_request_shape [of a_provider ?msgs]
  have "\<forall>prior u. ?msgs = prior @ [u] \<and> role u = ''user'' \<longrightarrow>
         message ?req = content u \<and>
         chat_history ?req =
           map (\<lambda>m. chatbot_entry (content m))
             (filter (\<lambda>m. role m = ''assistant'') prior)"
    by blast
  with h have "message ?req = content ?u \<and>
         chat_history ?req =
           map (\<lambda>m. chatbot_entry (content m))
             (filter (\<lambda>m. role m = ''assistant'') ?prior)"
    by blast
  with h have r: "message ?req = JStr ''u2'' \<and>
         chat_history ?req = [JDict [(''role'', JStr ''CHATBOT''), (''message'', JStr ''a1'')] ]"
    by (simp add: chatbot_entry_def)
  let ?echo = "\<lambda>req :: cohere_request.
                 Inr (JList (message req # chat_history req)) :: py_error + json"
  let ?down = "\<lambda>req :: cohere_request. Inl (Raise Exception ''down'') :: py_error + json"
  from CohereProvider_request_shape [of a_provider ?msgs]
  have sends: "CohereProvider_chat client a_provider ?msgs =
        (case client
           \<lparr>model = model a_provider, temperature = temperature a_provider,
            max_tokens = max_tokens a_provider,
            message = (case filter (\<lambda>m. role m = ''user'') ?msgs of
                         [] \<Rightarrow> JStr [] | u # us \<Rightarrow> content (last (u # us))),
            chat_history = map (\<lambda>m. chatbot_entry (content m))
                             (filter (\<lambda>m. role m = ''assistant'') ?msgs)\<rparr> of
           Inl e \<Rightarrow> Inl (Raise Exception (''Cohere API error: '' @ str_of_error e))
         | Inr text \<Rightarrow> Inr text)" for client
    by blast
  have up: "CohereProvider_chat ?echo a_provider ?msgs =
       Inr (JList [JStr ''u2'', JDict [(''role'', JStr ''CHATBOT''), (''message'', JStr ''a1'')] ])"
    by (simp add: sends [of ?echo] chatbot_entry_def)
  have down: "CohereProvider_chat ?down a_provider ?msgs =
       Inl (Raise Exception ''Cohere API error: down'')"
    by (simp add: sends [of ?down])
  from h r up down show ?thesis by simp
qed

text \<open>
  Claim C2. \<^verbatim>\<open>AnthropicProvider.chat\<close> calls the client on the request it
  builds from the message list, with the system message apart from the turns, and returns
  the first text of the client's answer or raises its failure under the vendor's name. The
  request, for any message list: the turn list is the list without its system messages, in the original order;
  when the list has a single system message, the system field is its content; the model, the
  temperature and the token budget are those of the provider. On
  \<^verbatim>\<open>[system S, user u1, assistant a1, user u2]\<close> the system field is
  \<^verbatim>\<open>S\<close> and the turn list is \<^verbatim>\<open>[user u1, assistant a1, user u2]\<close>.
\<close>

theorem AnthropicProvider_request_shape:
  "messages (AnthropicProvider_request self msgs) =
     filter (\<lambda>m. role m \<noteq> ''system'') msgs
   \<and> (\<forall>s. filter (\<lambda>m. role m = ''system'') msgs = [s] \<longrightarrow>
         system (AnthropicProvider_request self msgs) = content s)
   \<and> model (AnthropicProvider_request self msgs) = model self
   \<and> temperature (AnthropicProvider_request self msgs) = temperature self
   \<and> max_tokens (AnthropicProvider_request self msgs) = max_tokens self
   \<and> AnthropicProvider_request self
       [Message ''system'' ''S'', Message ''user'' ''u1'',
        Message ''assistant'' ''a1'', Message ''user'' ''u2''] =
     \<lparr>model = model self, temperature = temperature self, max_tokens = max_tokens self,
      messages = [Message ''user'' ''u1'', Message ''assistant'' ''a1'', Message ''user'' ''u2''],
      system = JStr ''S''\<rparr>
   \<and> (\<forall>client. AnthropicProvider_chat client self msgs =
        (case client
           \<lparr>model = model self, temperature = temperature self, max_tokens = max_tokens self,
            messages = filter (\<lambda>m. role m \<noteq> ''system'') msgs,
            system = (case filter (\<lambda>m. role m = ''system'') msgs of
                        [] \<Rightarrow> JStr [] | s # ss \<Rightarrow> content (last (s # ss)))\<rparr> of
           Inl e \<Rightarrow> Inl (Raise Exception (''Anthropic API error: '' @ str_of_error e))
         | Inr blocks \<Rightarrow>
             (case blocks of
                [] \<Rightarrow> Inl (Raise Exception ''Anthropic API error: list index out of range'')
              | text # _ \<Rightarrow> Inr text)))"
proof -
  have a: "messages (AnthropicProvider_request self msgs) =
     filter (\<lambda>m. role m \<noteq> ''system'') msgs"
    by (simp add: AnthropicProvider_request_def anthropic_loop_eq)
  have b: "\<forall>s. filter (\<lambda>m. role m = ''system'') msgs = [s] \<longrightarrow>
         system (AnthropicProvider_request self msgs) = content s"
    by (simp add: AnthropicProvider_request_def anthropic_loop_eq)
  have c: "model (AnthropicProvider_request self msgs) = model self"
    "temperature (AnthropicProvider_request self msgs) = temperature self"
    "max_tokens (AnthropicProvider_request self msgs) = max_tokens self"
    by (simp_all add: AnthropicProvider_request_def anthropic_loop_eq)
  have e: "AnthropicProvider_request self
       [Message ''system'' ''S'', Message ''user'' ''u1'',
        Message ''assistant'' ''a1'', Message ''user'' ''u2''] =
     \<lparr>model = model self, temperature = temperature self, max_tokens = max_tokens self,
      messages = [Message ''user'' ''u1'', Message ''assistant'' ''a1'', Message ''user'' ''u2''],
      system = JStr ''S''\<rparr>"
    by (simp add: AnthropicProvider_request_def)
  have f: "\<forall>client. AnthropicProvider_chat client self msgs =
        (case client
           \<lparr>model = model self, temperature = temperature self, max_tokens = max_tokens self,
            messages = filter (\<lambda>m. role m \<noteq> ''system'') msgs,
            system = (case filter (\<lambda>m. role m = ''system'') msgs of
                        [] \<Rightarrow> JStr [] | s # ss \<Rightarrow> content (last (s # ss)))\<rparr> of
           Inl e \<Rightarrow> Inl (Raise Exception (''Anthropic API error: '' @ str_of_error e))
         | Inr blocks \<Rightarrow>
             (case blocks of
                [] \<Rightarrow> Inl (Raise Exception ''Anthropic API error: list index out of range'')
              | text # _ \<Rightarrow> Inr text))"
    by (intro allI) (rule AnthropicProvider_chat_sends)
  from a b c e f show ?thesis by blast
qed

text \<open>
  A list whose only system message is the first one, and two clients that answer with what
  they were sent: the system field first, or the turns alone.
\<close>

theorem AnthropicProvider_request_shape_witness:
  "filter (\<lambda>m. role m = ''system'') [Message ''system'' ''S'', Message ''user'' ''u1''] =
     [Message ''system'' ''S'']
   \<and> system (AnthropicProvider_request a_provider
        [Message ''system'' ''S'', Message ''user'' ''u1'']) = JStr ''S''
   \<and> messages (AnthropicProvider_request a_provider
        [Message ''system'' ''S'', Message ''user'' ''u1'']) = [Message ''user'' ''u1'']
   \<and> AnthropicProvider_chat (\<lambda>req. Inr (system req # map content (messages req))) a_provider
        [Message ''system'' ''S'', Message ''user'' ''u1''] = Inr (JStr ''S'')
   \<and> AnthropicProvider_chat (\<lambda>req. Inr (map content (messages req))) a_provider
        [Message ''system'' ''S'', Message ''user'' ''u1''] = Inr (JStr ''u1'')"
proof -
  let ?msgs = "[Message ''system'' ''S'', Message ''user'' ''u1'']"
  let ?req = "AnthropicProvider_request a_provider ?msgs"
  have h: "filter (\<lambda>m. role m = ''system'') ?msgs = [Message ''system'' ''S'']"
    by simp
  from AnthropicProvider_request_shape [of a_provider ?msgs]
  have "(\<forall>s. filter (\<lambda>m. role m = ''system'') ?msgs = [s] \<longrightarrow> system ?req = content s)
        \<and> messages ?req = filter (\<lambda>m. role m \<noteq> ''system'') ?msgs"
    by blast
  with h have "system ?req = content (Message ''system'' ''S'')
        \<and> messages ?req = filter (\<lambda>m. role m \<noteq> ''system'') ?msgs"
    by blast
  with h have r: "system ?req = JStr ''S'' \<and> messages ?req = [Message ''user'' ''u1'']"
    by simp
  let ?field = "\<lambda>req :: anthropic_request.
                  Inr (system req # map content (messages req)) :: py_error + json list"
  let ?turns = "\<lambda>req :: anthropic_request.
                  Inr (map content (messages req)) :: py_error + json list"
  from AnthropicProvider_request_shape [of a_provider ?msgs]
  have sends: "AnthropicProvider_chat client a_provider ?msgs =
        (case client
           \<lparr>model = model a_provider, temperature = temperature a_provider, max_tokens = max_tokens a_provider,
            messages = filter (\<lambda>m. role m \<noteq> ''system'') ?msgs,
            system = (case filter (\<lambda>m. role m = ''system'') ?msgs of
                        [] \<Rightarrow> JStr [] | s # ss \<Rightarrow> content (last (s # ss)))\<rparr> of
           Inl e \<Rightarrow> Inl (Raise Exception (''Anthropic API error: '' @ str_of_error e))
         | Inr blocks \<Rightarrow>
             (case blocks of
                [] \<Rightarrow> Inl (Raise Exception ''Anthropic API error: list index out of range'')
              | text # _ \<Rightarrow> Inr text))" for client
    by blast
  have s1: "AnthropicProvider_chat ?field a_provider ?msgs = Inr (JStr ''S'')"
    by (simp add: sends [of ?field])
  have s2: "AnthropicProvider_chat ?turns a_provider ?msgs = Inr (JStr ''u1'')"
    by (simp add: sends [of ?turns])
  from h r s1 s2 show ?thesis by simp
qed

text \<open>
  Claim C10. The edge cases of \<^verbatim>\<open>AnthropicProvider.chat\<close>, which calls the
  client on the request it builds and returns the first text of its answer: in that request
  the system field is the content of the last system message of the list, and the empty string
  when the list has none; no system message is left in the turn list, wherever it stood in
  the input, and nothing else is removed. On
  \<^verbatim>\<open>[user u1, system S1, assistant a1, system S2, user u2]\<close> the system field
  is \<^verbatim>\<open>S2\<close> and the turn list is
  \<^verbatim>\<open>[user u1, assistant a1, user u2]\<close>.
\<close>

theorem AnthropicProvider_request_edge_cases:
  "system (AnthropicProvider_request self msgs) =
     (case filter (\<lambda>m. role m = ''system'') msgs of
        [] \<Rightarrow> JStr [] | s # ss \<Rightarrow> content (last (s # ss)))
   \<and> filter (\<lambda>m. role m = ''system'') (messages (AnthropicProvider_request self msgs)) = []
   \<and> length (messages (AnthropicProvider_request self msgs)) +
       length (filter (\<lambda>m. role m = ''system'') msgs) = length msgs
   \<and> AnthropicProvider_request self
       [Message ''user'' ''u1'', Message ''system'' ''S1'', Message ''assistant'' ''a1'',
        Message ''system'' ''S2'', Message ''user'' ''u2''] =
     \<lparr>model = model self, temperature = temperature self, max_tokens = max_tokens self,
      messages = [Message ''user'' ''u1'', Message ''assistant'' ''a1'', Message ''user'' ''u2''],
      system = JStr ''S2''\<rparr>
   \<and> system (AnthropicProvider_request self [Message ''user'' ''u1'']) = JStr []
   \<and> (\<forall>client. AnthropicProvider_chat client self msgs =
        (case client
           \<lparr>model = model self, temperature = temperature self, max_tokens = max_tokens self,
            messages = filter (\<lambda>m. role m \<noteq> ''system'') msgs,
            system = (case filter (\<lambda>m. role m = ''system'') msgs of
                        [] \<Rightarrow> JStr [] | s # ss \<Rightarrow> content (last (s # ss)))\<rparr> of
           Inl e \<Rightarrow> Inl (Raise Exception (''Anthropic API error: '' @ str_of_error e))
         | Inr blocks \<Rightarrow>
             (case blocks of
                [] \<Rightarrow> Inl (Raise Exception ''Anthropic API error: list index out of range'')
              | text # _ \<Rightarrow> Inr text)))"
proof -
  have a: "system (AnthropicProvider_request self msgs) =
     (case filter (\<lambda>m. role m = ''system'') msgs of
        [] \<Rightarrow> JStr [] | s # ss \<Rightarrow> content (last (s # ss)))"
    by (simp add: AnthropicProvider_request_def anthropic_loop_eq)
  have b: "filter (\<lambda>m. role m = ''system'') (messages (AnthropicProvider_request self msgs)) = []"
    by (simp add: AnthropicProvider_request_def anthropic_loop_eq)
  have c: "length (messages (AnthropicProvider_request self msgs)) +
       length (filter (\<lambda>m. role m = ''system'') msgs) = length msgs"
    using sum_length_filter_compl [of "\<lambda>m. role m = ''system''" msgs]
    by (simp add: AnthropicProvider_request_def anthropic_loop_eq)
  have e: "AnthropicProvider_request self
       [Message ''user'' ''u1'', Message ''system'' ''S1'', Message ''assistant'' ''a1'',
        Message ''system'' ''S2'', Message ''user'' ''u2''] =
     \<lparr>model = model self, temperature = temperature self, max_tokens = max_tokens self,
      messages = [Message ''user'' ''u1'', Message ''assistant'' ''a1'', Message ''user'' ''u2''],
      system = JStr ''S2''\<rparr>"
    by (simp add: AnthropicProvider_request_def)
  have f: "system (AnthropicProvider_request self [Message ''user'' ''u1'']) = JStr []"
    by (simp add: AnthropicProvider_request_def)
  have g: "\<forall>client. AnthropicProvider_chat client self msgs =
        (case client
           \<lparr>model = model self, temperature = temperature self, max_tokens = max_tokens self,
            messages = filter (\<lambda>m. role m \<noteq> ''system'') msgs,
            system = (case filter (\<lambda>m. role m = ''system'') msgs of
                        [] \<Rightarrow> JStr [] | s # ss \<Rightarrow> content (last (s # ss)))\<rparr> of
           Inl e \<Rightarrow> Inl (Raise Exception (''Anthropic API error: '' @ str_of_error e))
         | Inr blocks \<Rightarrow>
             (case blocks of
                [] \<Rightarrow> Inl (Raise Exception ''Anthropic API error: list index out of range'')
              | text # _ \<Rightarrow> Inr text))"
    by (intro allI) (rule AnthropicProvider_chat_sends)
  from a b c e f g show ?thesis by blast
qed

text \<open>
  Two system messages, the first at the head of the list and the second in its middle, and a
  list with none; the clients answer with what they were sent.
\<close>

theorem AnthropicProvider_request_edge_cases_witness:
  "system (AnthropicProvider_request a_provider
      [Message ''system'' ''S1'', Message ''user'' ''u1'',
       Message ''system'' ''S2'', Message ''user'' ''u2'']) = JStr ''S2''
   \<and> filter (\<lambda>m. role m = ''system'')
        (messages (AnthropicProvider_request a_provider
           [Message ''system'' ''S1'', Message ''user'' ''u1'',
            Message ''system'' ''S2'', Message ''user'' ''u2''])) = []
   \<and> AnthropicProvider_chat (\<lambda>req. Inr [JList (system req # map content (messages req))])
        a_provider
        [Message ''system'' ''S1'', Message ''user'' ''u1'',
         Message ''system'' ''S2'', Message ''user'' ''u2'']
       = Inr (JList [JStr ''S2'', JStr ''u1'', JStr ''u2''])
   \<and> AnthropicProvider_chat (\<lambda>req. Inr [system req]) a_provider [Message ''user'' ''u1'']
       = Inr (JStr [])"
proof -
  let ?msgs = "[Message ''system'' ''S1'', Message ''user'' ''u1'',
                Message ''system'' ''S2'', Message ''user'' ''u2'']"
  let ?req = "AnthropicProvider_request a_provider ?msgs"
  from AnthropicProvider_request_edge_cases [of a_provider ?msgs]
  have "system ?req =
     (case filter (\<lambda>m. role m = ''system'') ?msgs of
        [] \<Rightarrow> JStr [] | s # ss \<Rightarrow> content (last (s # ss)))
     \<and> filter (\<lambda>m. role m = ''system'') (messages ?req) = []"
    by blast
  then have r: "system ?req = JStr ''S2'' \<and>
                filter (\<lambda>m. role m = ''system'') (messages ?req) = []"
    by simp
  let ?all = "\<lambda>req :: anthropic_request.
                Inr [JList (system req # map content (messages req))] :: py_error + json list"
  let ?field = "\<lambda>req :: anthropic_request. Inr [system req] :: py_error + json list"
  from AnthropicProvider_request_edge_cases [of a_provider ?msgs]
  have many: "AnthropicProvider_chat client a_provider ?msgs =
        (case client
           \<lparr>model = model a_provider, temperature = temperature a_provider, max_tokens = max_tokens a_provider,
            messages = filter (\<lambda>m. role m \<noteq> ''system'') ?msgs,
            system = (case filter (\<lambda>m. role m = ''system'') ?msgs of
                        [] \<Rightarrow> JStr [] | s # ss \<Rightarrow> content (last (s # ss)))\<rparr> of
           Inl e \<Rightarrow> Inl (Raise Exception (''Anthropic API error: '' @ str_of_error e))
         | Inr blocks \<Rightarrow>
             (case blocks of
                [] \<Rightarrow> Inl (Raise Exception ''Anthropic API error: list index out of range'')
              | text # _ \<Rightarrow> Inr text))" for client
    by blast
  from AnthropicProvider_request_edge_cases [of a_provider "[Message ''user'' ''u1'']"]
  have none: "AnthropicProvider_chat client a_provider [Message ''user'' ''u1''] =
        (case client
           \<lparr>model = model a_provider, temperature = temperature a_provider, max_tokens = max_tokens a_provider,
            messages = filter (\<lambda>m. role m \<noteq> ''system'') [Message ''user'' ''u1''],
            system = (case filter (\<lambda>m. role m = ''system'') [Message ''user'' ''u1''] of
                        [] \<Rightarrow> JStr [] | s # ss \<Rightarrow> content (last (s # ss)))\<rparr> of
           Inl e \<Rightarrow> Inl (Raise Exception (''Anthropic API error: '' @ str_of_error e))
         | Inr blocks \<Rightarrow>
             (case blocks of
                [] \<Rightarrow> Inl (Raise Exception ''Anthropic API error: list index out of range'')
              | text # _ \<Rightarrow> Inr text))" for client
    by blast
  have s1: "AnthropicProvider_chat ?all a_provider ?msgs =
            Inr (JList [JStr ''S2'', JStr ''u1'', JStr ''u2''])"
    by (simp add: many [of ?all])
  have s2: "AnthropicProvider_chat ?field a_provider [Message ''user'' ''u1''] = Inr (JStr [])"
    by (simp add: none [of ?field])
  from r s1 s2 show ?thesis by simp
qed



subsection \<open>The conversation\<close>

lemma get_messages_for_api_eq:
  "get_messages_for_api self =
     (if truthy (Config_bot_instructions (config self))
      then \<lparr>role = ''system'', content = Config_bot_instructions (config self)\<rparr> #
           conversation_history self
      else conversation_history self)"
  by (simp add: get_messages_for_api_def)

lemma process_chat_message_config:
  "config (snd (process_chat_message provider user_input self)) = config self"
  by (simp add: process_chat_message_def handler_def Let_def split: sum.splits)

lemma process_chat_message_history:
  "conversation_history (snd (process_chat_message provider user_input self)) =
     conversation_history self @ Message ''user'' user_input #
       (case provider (sent self)
               (get_messages_for_api
                  (self\<lparr>conversation_history :=
                          conversation_history self @ [Message ''user'' user_input]\<rparr>)) of
          Inl e \<Rightarrow> []
        | Inr response \<Rightarrow> [\<lparr>role = ''assistant'', content = response\<rparr>])"
  by (simp add: process_chat_message_def handler_def Let_def split: sum.splits)

text \<open>
  Claim C5. \<^verbatim>\<open>get_messages_for_api\<close> returns the system message, made from the
  configured instruction, followed by the whole history in its order when the instruction is
  not empty, and the history alone when it is. After \<^verbatim>\<open>clear_history\<close> it returns
  the system message alone, or the empty list. The order is the order of insertion: a chat
  turn that the provider answers extends the assembled list at its end, by the user's message
  and then the reply.
\<close>

theorem get_messages_for_api_assembles:
  "get_messages_for_api self =
     (if truthy (Config_bot_instructions (config self))
      then \<lparr>role = ''system'', content = Config_bot_instructions (config self)\<rparr> #
           conversation_history self
      else conversation_history self)
   \<and> get_messages_for_api (clear_history self) =
     (if truthy (Config_bot_instructions (config self))
      then [\<lparr>role = ''system'', content = Config_bot_instructions (config self)\<rparr>]
      else [])
   \<and> (\<forall>provider user_input response.
        provider (sent self)
          (get_messages_for_api
             (self\<lparr>conversation_history :=
                     conversation_history self @ [Message ''user'' user_input]\<rparr>))
          = Inr response \<longrightarrow>
        get_messages_for_api (snd (process_chat_message provider user_input self)) =
          get_messages_for_api self @
            [Message ''user'' user_input, \<lparr>role = ''assistant'', content = response\<rparr>])"
proof -
  have a: "get_messages_for_api self =
     (if truthy (Config_bot_instructions (config self))
      then \<lparr>role = ''system'', content = Config_bot_instructions (config self)\<rparr> #
           conversation_history self
      else conversation_history self)"
    by (rule get_messages_for_api_eq)
  have b: "get_messages_for_api (clear_history self) =
     (if truthy (Config_bot_instructions (config self))
      then [\<lparr>role = ''system'', content = Config_bot_instructions (config self)\<rparr>]
      else [])"
    by (simp add: get_messages_for_api_eq clear_history_def)
  have c: "\<forall>provider user_input response.
        provider (sent self)
          (get_messages_for_api
             (self\<lparr>conversation_history :=
                     conversation_history self @ [Message ''user'' user_input]\<rparr>))
          = Inr response \<longrightarrow>
        get_messages_for_api (snd (process_chat_message provider user_input self)) =
          get_messages_for_api self @
            [Message ''user'' user_input, \<lparr>role = ''assistant'', content = response\<rparr>]"
    by (simp add: get_messages_for_api_eq [of "snd (process_chat_message _ _ _)"]
        get_messages_for_api_eq [of self]
        process_chat_message_config process_chat_message_history)
  from a b c show ?thesis by blast
qed

text \<open>
  The user says hi and the provider answers hello, with an instruction and without one.
\<close>

theorem get_messages_for_api_assembles_witness:
  "get_messages_for_api
     (snd (process_chat_message (\<lambda>before msgs. Inr (JStr ''hello'')) ''hi''
        (init_ChatBot (JDict [(''bot_instructions'', JStr ''Be brief.'')]))))
     = [Message ''system'' ''Be brief.'', Message ''user'' ''hi'', Message ''assistant'' ''hello'']
   \<and> get_messages_for_api
     (snd (process_chat_message (\<lambda>before msgs. Inr (JStr ''hello'')) ''hi''
        (init_ChatBot (JDict [(''bot_instructions'', JStr [])]))))
     = [Message ''user'' ''hi'', Message ''assistant'' ''hello'']"
proof -
  let ?brief = "JDict [(''bot_instructions'', JStr ''Be brief.'')]"
  let ?none = "JDict [(''bot_instructions'', JStr [])]"
  let ?hello = "\<lambda>(before :: message list list) (msgs :: message list).
                  Inr (JStr ''hello'') :: py_error + json"
  have i0: "Config_bot_instructions ?brief = JStr ''Be brief.''"
    by (simp add: Config_bot_instructions_def Config_get_def py_split_def)
  have i1: "Config_bot_instructions ?none = JStr []"
    by (simp add: Config_bot_instructions_def Config_get_def py_split_def)
  from get_messages_for_api_assembles [of "init_ChatBot ?brief"]
  have "get_messages_for_api (snd (process_chat_message ?hello ''hi'' (init_ChatBot ?brief))) =
        get_messages_for_api (init_ChatBot ?brief) @
          [Message ''user'' ''hi'', Message ''assistant'' ''hello'']"
    by simp
  then have a: "get_messages_for_api
        (snd (process_chat_message ?hello ''hi'' (init_ChatBot ?brief))) =
        [Message ''system'' ''Be brief.'', Message ''user'' ''hi'', Message ''assistant'' ''hello'']"
    by (simp add: get_messages_for_api_def init_ChatBot_def i0)
  from get_messages_for_api_assembles [of "init_ChatBot ?none"]
  have "get_messages_for_api (snd (process_chat_message ?hello ''hi'' (init_ChatBot ?none))) =
        get_messages_for_api (init_ChatBot ?none) @
          [Message ''user'' ''hi'', Message ''assistant'' ''hello'']"
    by simp
  then have b: "get_messages_for_api
        (snd (process_chat_message ?hello ''hi'' (init_ChatBot ?none))) =
        [Message ''user'' ''hi'', Message ''assistant'' ''hello'']"
    by (simp add: get_messages_for_api_def init_ChatBot_def i1)
  from a b show ?thesis by blast
qed

lemma step_no_system:
  "no_system (conversation_history self) \<Longrightarrow> no_system (conversation_history (step self cmd))"
  by (cases cmd)
     (auto simp: no_system_def process_chat_message_history clear_history_def split: sum.splits)

lemma foldl_step_no_system:
  "no_system (conversation_history self) \<Longrightarrow>
   no_system (conversation_history (foldl step self cmds))"
  by (induction cmds arbitrary: self) (auto simp del: step.simps intro: step_no_system)

lemma history_of_append_message:
  "history_of (append_message u m st) v =
     (if v = u then history_of st u @ [m] else history_of st v)"
  by (simp add: history_of_def append_message_def)

lemma outbox_history_of [simp]: "history_of (st\<lparr>outbox := ob\<rparr>) v = history_of st v"
  by (simp add: history_of_def)

lemma handle_message_no_system:
  assumes "\<forall>v. no_system (history_of st v)"
  shows "no_system (history_of (handle_message cfg net user_id user_message st) v)"
proof -
  define s0 where "s0 =
    (if user_id \<notin> dom (user_conversations st)
     then st\<lparr>user_conversations := (user_conversations st)(user_id \<mapsto> [])\<rparr> else st)"
  define s1 where "s1 = append_message user_id (Message ''user'' user_message) s0"
  define msgs where "msgs =
    (if truthy (Config_bot_instructions cfg)
     then [] @ [\<lparr>role = ''system'', content = Config_bot_instructions cfg\<rparr>]
     else []) @ history_of s1 user_id"
  have "history_of s0 w = history_of st w" for w
    by (auto simp: s0_def history_of_def dom_def split: option.splits)
  with assms have i0: "no_system (history_of s0 w)" for w
    by simp
  then have i1: "no_system (history_of s1 w)" for w
    by (simp add: s1_def history_of_append_message no_system_def)
  have i2: "no_system
      (history_of (append_message user_id \<lparr>role = ''assistant'', content = r\<rparr> s1) w)" for r w
    using i1 by (simp add: history_of_append_message no_system_def)
  have eq: "handle_message cfg net user_id user_message st =
     (case send_action net of
        Some e \<Rightarrow> s0\<lparr>outbox := outbox s0 @ [ErrorReply]\<rparr>
      | None \<Rightarrow>
          (case chat net msgs of
             Inl e \<Rightarrow> s1\<lparr>outbox := outbox s1 @ [ErrorReply]\<rparr>
           | Inr response \<Rightarrow>
               (let s2 = append_message user_id \<lparr>role = ''assistant'', content = response\<rparr> s1;
                    s3 = s2\<lparr>outbox := outbox s2 @ [Answer response]\<rparr>
                in case reply_text net of
                     Some e \<Rightarrow> s3\<lparr>outbox := outbox s3 @ [ErrorReply]\<rparr>
                   | None \<Rightarrow> s3)))"
    unfolding handle_message_def s0_def s1_def msgs_def Let_def ..
  show ?thesis
    unfolding eq using i0 i1 i2
    by (simp add: Let_def split: option.splits sum.splits)
qed

lemma dispatch_no_system:
  assumes "\<forall>v. no_system (history_of st v)"
  shows "no_system (history_of (dispatch cfg st upd) v)"
proof (cases upd)
  case (Start u)
  with assms show ?thesis
    by (auto simp: start_command_def history_of_def no_system_def Let_def split: option.splits)
next
  case (ClearCmd u)
  with assms show ?thesis
    by (auto simp: clear_command_def history_of_def no_system_def Let_def split: option.splits)
next
  case (Text net u t)
  with assms show ?thesis by (simp add: handle_message_no_system)
qed

lemma foldl_dispatch_no_system:
  "\<forall>v. no_system (history_of st v) \<Longrightarrow>
   no_system (history_of (foldl (dispatch cfg) st updates) v)"
  by (induction updates arbitrary: st) (auto simp del: dispatch.simps simp: dispatch_no_system)

text \<open>
  Claim C6. From the empty history, whatever chat turns and clear commands follow, whatever
  the user types and whatever the provider does, the history of the terminal session holds no
  message of the system role; and from the empty table of conversations, whatever updates
  arrive, no user's history in the Telegram bridge holds one. The system message exists only
  in the list assembled for the provider.
\<close>

theorem history_never_holds_system:
  "no_system (conversation_history (session cfg cmds))
   \<and> no_system (history_of (polling cfg updates) user_id)"
proof -
  have a: "no_system (conversation_history (session cfg cmds))"
    unfolding session_def
    by (rule foldl_step_no_system) (simp add: init_ChatBot_def no_system_def)
  have b: "no_system (history_of (polling cfg updates) user_id)"
    unfolding polling_def
    by (rule foldl_dispatch_no_system) (simp add: init_telegram_def history_of_def no_system_def)
  from a b show ?thesis by blast
qed

text \<open>
  A session in which the user types the word system itself.
\<close>

theorem history_never_holds_system_witness:
  "no_system (conversation_history
     (session (JDict [(''bot_instructions'', JStr ''Be brief.'')])
        [Chat (\<lambda>before msgs. Inr (JStr ''hello'')) ''system'', Clear,
         Chat (\<lambda>before msgs. Inl (Raise Exception ''down'')) ''hi'']))
   \<and> no_system (history_of
     (polling (JDict [(''bot_instructions'', JStr ''Be brief.'')])
        [Start 7,
         Text \<lparr>send_action = None, chat = (\<lambda>msgs. Inr (JStr ''hello'')), reply_text = None\<rparr>
           7 ''system'']) 7)"
  by (rule history_never_holds_system)

text \<open>
  Claim C7. When the provider's \<^verbatim>\<open>chat\<close> fails in a chat turn,
  \<^verbatim>\<open>process_chat_message\<close> returns True, so the loop goes on; it has called the
  provider once, with the assembled list; it has printed the error once, after the progress
  line and before the advice to try again; and the history is the history before the turn
  followed by the user's message, with no reply after it.
\<close>

theorem provider_failure_abandons_turn:
  assumes fails: "provider (sent self)
     (get_messages_for_api
        (self\<lparr>conversation_history :=
                conversation_history self @ [Message ''user'' user_input]\<rparr>))
     = Inl e"
  shows "process_chat_message provider user_input self =
     (True,
      self\<lparr>conversation_history := conversation_history self @ [Message ''user'' user_input],
           stdout := stdout self @ [Thinking, ErrorLine (str_of_error e), TryAgainLine],
           sent := sent self @
             [get_messages_for_api
                (self\<lparr>conversation_history :=
                        conversation_history self @ [Message ''user'' user_input]\<rparr>)]\<rparr>)"
proof -
  let ?s1 = "self\<lparr>conversation_history :=
                   conversation_history self @ [Message ''user'' user_input]\<rparr>"
  let ?msgs = "get_messages_for_api ?s1"
  let ?s3 = "?s1\<lparr>stdout := stdout self @ [Thinking], sent := sent self @ [?msgs]\<rparr>"
  have "process_chat_message provider user_input self = handler e ?s3"
    using fails by (simp add: process_chat_message_def Let_def)
  also have "handler e ?s3 =
     (True, ?s3\<lparr>stdout := stdout ?s3 @ [ErrorLine (str_of_error e), TryAgainLine]\<rparr>)"
    by (simp only: handler_def)
  finally show ?thesis by simp
qed

text \<open>
  The first turn of a session, with the provider down.
\<close>

theorem provider_failure_abandons_turn_witness:
  "(\<lambda>before msgs. Inl (Raise Exception ''Groq API error: down''))
     (sent (init_ChatBot (JDict [(''bot_instructions'', JStr ''Be brief.'')])))
     (get_messages_for_api
        ((init_ChatBot (JDict [(''bot_instructions'', JStr ''Be brief.'')]))
           \<lparr>conversation_history :=
              conversation_history (init_ChatBot (JDict [(''bot_instructions'', JStr ''Be brief.'')]))
                @ [Message ''user'' ''hi'']\<rparr>))
     = (Inl (Raise Exception ''Groq API error: down'') :: py_error + json)
   \<and> process_chat_message (\<lambda>before msgs. Inl (Raise Exception ''Groq API error: down'')) ''hi''
       (init_ChatBot (JDict [(''bot_instructions'', JStr ''Be brief.'')])) =
     (True,
      \<lparr>config = JDict [(''bot_instructions'', JStr ''Be brief.'')],
       conversation_history = [Message ''user'' ''hi''],
       stdout = [Thinking, ErrorLine ''Groq API error: down'', TryAgainLine],
       sent = [ [Message ''system'' ''Be brief.'', Message ''user'' ''hi''] ]\<rparr>)"
proof -
  let ?brief = "JDict [(''bot_instructions'', JStr ''Be brief.'')]"
  let ?bot = "init_ChatBot ?brief"
  let ?down = "\<lambda>(before :: message list list) (msgs :: message list).
                 Inl (Raise Exception ''Groq API error: down'') :: py_error + json"
  have i0: "Config_bot_instructions ?brief = JStr ''Be brief.''"
    by (simp add: Config_bot_instructions_def Config_get_def py_split_def)
  have "process_chat_message ?down ''hi'' ?bot =
     (True,
      ?bot\<lparr>conversation_history := conversation_history ?bot @ [Message ''user'' ''hi''],
           stdout := stdout ?bot @
             [Thinking, ErrorLine (str_of_error (Raise Exception ''Groq API error: down'')),
              TryAgainLine],
           sent := sent ?bot @
             [get_messages_for_api
                (?bot\<lparr>conversation_history :=
                        conversation_history ?bot @ [Message ''user'' ''hi'']\<rparr>)]\<rparr>)"
    by (rule provider_failure_abandons_turn) simp
  then show ?thesis
    by (simp add: init_ChatBot_def get_messages_for_api_def i0)
qed

subsection \<open>The factory\<close>

lemma PROVIDERS_names:
  "map fst PROVIDERS = [''openai'', ''anthropic'', ''cohere'', ''ollama'', ''groq'']"
  by (simp add: PROVIDERS_def)

lemma available_names:
  "py_join '', '' (map fst PROVIDERS) = ''openai, anthropic, cohere, ollama, groq''"
  by (simp add: PROVIDERS_def)

lemma map_of_PROVIDERS_None: "map_of PROVIDERS n = None \<longleftrightarrow> n \<notin> set (map fst PROVIDERS)"
  by (simp add: map_of_eq_None_iff)

text \<open>
  Claim C8. \<^verbatim>\<open>ProviderFactory.create_provider\<close>, for a configuration whose provider
  name \<open>p\<close> is a string: the registry holds the five names openai, anthropic, cohere,
  ollama and groq; when the name in lower case is none of them, the result is a ValueError
  whose message gives that name and lists the five; when it is one of them, the result is
  what the constructor registered under it returns. The class selected depends on the name in
  lower case only, so two spellings of a name that differ in case select the same class.
\<close>

theorem create_provider_lookup:
  "map fst PROVIDERS = [''openai'', ''anthropic'', ''cohere'', ''ollama'', ''groq'']
   \<and> (Config_api_provider cfg = JStr p \<and> py_lower p \<notin> set (map fst PROVIDERS) \<longrightarrow>
        create_provider construct cfg =
          Inl (Raise ValueError
            (''Unknown provider '' @ [CHR 0x27] @ py_lower p @ [CHR 0x27] @
             ''. Available: openai, anthropic, cohere, ollama, groq'')))
   \<and> (\<forall>cls. Config_api_provider cfg = JStr p \<and> map_of PROVIDERS (py_lower p) = Some cls
        \<longrightarrow> create_provider construct cfg = construct cls cfg)
   \<and> (\<forall>cfg' q. Config_api_provider cfg = JStr p \<and> Config_api_provider cfg' = JStr q \<and>
          py_lower p = py_lower q \<longrightarrow>
        create_provider (\<lambda>cls c. Inr cls) cfg = create_provider (\<lambda>cls c. Inr cls) cfg')"
proof -
  have a: "map fst PROVIDERS = [''openai'', ''anthropic'', ''cohere'', ''ollama'', ''groq'']"
    by (rule PROVIDERS_names)
  have b: "Config_api_provider cfg = JStr p \<and> py_lower p \<notin> set (map fst PROVIDERS) \<longrightarrow>
        create_provider construct cfg =
          Inl (Raise ValueError
            (''Unknown provider '' @ [CHR 0x27] @ py_lower p @ [CHR 0x27] @
             ''. Available: openai, anthropic, cohere, ollama, groq''))"
  proof (intro impI, elim conjE)
    assume p: "Config_api_provider cfg = JStr p"
      and "py_lower p \<notin> set (map fst PROVIDERS)"
    then have "map_of PROVIDERS (py_lower p) = None"
      using map_of_PROVIDERS_None [of "py_lower p"] by blast
    with p show "create_provider construct cfg =
          Inl (Raise ValueError
            (''Unknown provider '' @ [CHR 0x27] @ py_lower p @ [CHR 0x27] @
             ''. Available: openai, anthropic, cohere, ollama, groq''))"
      by (simp add: create_provider_def Let_def available_names)
  qed
  have c: "\<forall>cls. Config_api_provider cfg = JStr p \<and> map_of PROVIDERS (py_lower p) = Some cls
        \<longrightarrow> create_provider construct cfg = construct cls cfg"
    by (simp add: create_provider_def)
  have d: "\<forall>cfg' q. Config_api_provider cfg = JStr p \<and> Config_api_provider cfg' = JStr q \<and>
          py_lower p = py_lower q \<longrightarrow>
        create_provider (\<lambda>cls c. Inr cls) cfg = create_provider (\<lambda>cls c. Inr cls) cfg'"
    by (simp add: create_provider_def)
  from a b c d show ?thesis by blast
qed

text \<open>
  The names \<^verbatim>\<open>GROQ\<close> and \<^verbatim>\<open>groq\<close> select the Groq class;
  \<^verbatim>\<open>Foo\<close> is unknown.
\<close>

theorem create_provider_lookup_witness:
  "Config_api_provider (JDict [(''api_provider'', JStr ''GROQ'')]) = JStr ''GROQ''
   \<and> map_of PROVIDERS (py_lower ''GROQ'') = Some GroqProvider
   \<and> create_provider (\<lambda>cls c. Inr cls) (JDict [(''api_provider'', JStr ''GROQ'')])
       = Inr GroqProvider
   \<and> create_provider (\<lambda>cls c. Inr cls) (JDict [(''api_provider'', JStr ''groq'')])
       = Inr GroqProvider
   \<and> Config_api_provider (JDict [(''api_provider'', JStr ''Foo'')]) = JStr ''Foo''
   \<and> py_lower ''Foo'' \<notin> set (map fst PROVIDERS)
   \<and> create_provider (\<lambda>cls c. Inr cls) (JDict [(''api_provider'', JStr ''Foo'')]) =
       (Inl (Raise ValueError
          (''Unknown provider '' @ [CHR 0x27] @ ''foo'' @ [CHR 0x27] @
           ''. Available: openai, anthropic, cohere, ollama, groq''))
        :: py_error + provider_class)"
proof -
  let ?upper = "JDict [(''api_provider'', JStr ''GROQ'')]"
  let ?lower = "JDict [(''api_provider'', JStr ''groq'')]"
  let ?foo = "JDict [(''api_provider'', JStr ''Foo'')]"
  let ?select = "\<lambda>(cls :: provider_class) (c :: json). Inr cls :: py_error + provider_class"
  have pG: "Config_api_provider ?upper = JStr ''GROQ''"
    and pg: "Config_api_provider ?lower = JStr ''groq''"
    and pF: "Config_api_provider ?foo = JStr ''Foo''"
    by (simp_all add: Config_api_provider_def Config_get_def py_split_def)
  have lG: "py_lower ''GROQ'' = ''groq''" and lg: "py_lower ''groq'' = ''groq''"
    and lF: "py_lower ''Foo'' = ''foo''"
    by (simp_all add: py_lower_def lower_char_def)
  have m: "map_of PROVIDERS (py_lower ''GROQ'') = Some GroqProvider"
    by (simp add: lG PROVIDERS_def)
  have n: "py_lower ''Foo'' \<notin> set (map fst PROVIDERS)"
    by (simp add: lF PROVIDERS_def)
  note instG = create_provider_lookup [of ?upper "''GROQ''" ?select]
  from instG pG m
  have a: "create_provider ?select ?upper = Inr GroqProvider"
    by blast
  from instG pG pg lG lg
  have "create_provider ?select ?upper = create_provider ?select ?lower"
    by metis
  with a have b: "create_provider ?select ?lower = Inr GroqProvider"
    by simp
  from create_provider_lookup [of ?foo "''Foo''" ?select] pF n
  have "create_provider ?select ?foo =
       Inl (Raise ValueError
          (''Unknown provider '' @ [CHR 0x27] @ py_lower ''Foo'' @ [CHR 0x27] @
           ''. Available: openai, anthropic, cohere, ollama, groq''))"
    by blast
  then have c: "create_provider ?select ?foo =
       Inl (Raise ValueError
          (''Unknown provider '' @ [CHR 0x27] @ ''foo'' @ [CHR 0x27] @
           ''. Available: openai, anthropic, cohere, ollama, groq''))"
    by (simp only: lF)
  from pG m a b pF n c show ?thesis by blast
qed

end
